theory Spec2Isabelle
  imports Main "HOL-Library.Word"
begin

unbundle bit_operations_syntax

section \<open>The wallet client of pyclient/wallet/simplewallet\_client.py\<close>

text \<open>
  The client is one Python class, \<open>SimpleWalletClient\<close>, with a constructor and the
  methods \<open>deposit\<close>, \<open>withdraw\<close>, \<open>balance\<close>, \<open>_send_to_restapi\<close> and
  \<open>_wrap_and_send\<close>, and one module function \<open>_hash\<close>.  Every method is modelled by a
  function that returns \<open>Inl e\<close> where the Python raises \<open>e\<close> and \<open>Inr v\<close> where it
  returns \<open>v\<close>.  What the methods read from outside (the key file, the clock, the HTTP
  gateway) is an argument of the model, and the HTTP requests a method issues are returned
  next to its result.
\<close>

subsection \<open>Python values: \<open>str\<close>, \<open>bytes\<close>, exceptions\<close>

text \<open>
  A Python \<open>str\<close> is a sequence of Unicode code points, a \<open>bytes\<close> object a sequence of
  octets.  \<open>u\<close> turns an ASCII literal into the \<open>str\<close> with these characters.
\<close>

type_synonym pystr = "nat list"
type_synonym byte = "8 word"
type_synonym bytes = "byte list"

definition u :: "string \<Rightarrow> pystr" where
  "u s = map of_char s"

text \<open>
  The exceptions that occur.  \<open>SimpleWalletException\<close> is imported from
  \<open>wallet.simplewallet_exceptions\<close>; it is raised with a message (lines 56, 63, 114, 118)
  and, at line 122, with the caught exception object as its argument.
  \<open>ConnectionError\<close> is \<open>requests.ConnectionError\<close>.  \<open>OtherException\<close> stands for an
  exception of any other class.  \<open>SimpleWalletException\<close>, \<open>OSError\<close>,
  \<open>ParseError\<close>, \<open>ConnectionError\<close> and \<open>OtherException\<close> carry the text that
  \<open>str\<close> gives for the exception, \<open>AttributeError\<close> the name of the attribute that
  is missing and \<open>KeyError\<close> the key.
\<close>

datatype exc =
    SimpleWalletException pystr
  | SimpleWalletException_of exc
  | OSError pystr
  | ParseError pystr
  | ConnectionError pystr
  | AttributeError pystr
  | UnicodeEncodeError
  | KeyError pystr
  | TypeError
  | OtherException pystr

text \<open>
  \<open>str.encode()\<close> and \<open>str.encode('utf-8')\<close>: UTF-8, which has no encoding for the
  surrogates U+D800..U+DFFF (Python raises \<open>UnicodeEncodeError\<close>).  A \<open>str\<close> holds no
  value above U+10FFFF; the model refuses such a number too.
\<close>

definition utf8_char :: "nat \<Rightarrow> bytes option" where
  "utf8_char c =
     (if c < 0x80 then Some [of_nat c]
      else if c < 0x800 then Some [of_nat (0xC0 + c div 64), of_nat (0x80 + c mod 64)]
      else if 0xD800 \<le> c \<and> c \<le> 0xDFFF then None
      else if c < 0x10000 then
        Some [of_nat (0xE0 + c div 4096), of_nat (0x80 + (c div 64) mod 64),
              of_nat (0x80 + c mod 64)]
      else if c < 0x110000 then
        Some [of_nat (0xF0 + c div 262144), of_nat (0x80 + (c div 4096) mod 64),
              of_nat (0x80 + (c div 64) mod 64), of_nat (0x80 + c mod 64)]
      else None)"

fun encode :: "pystr \<Rightarrow> exc + bytes" where
  "encode [] = Inr []"
| "encode (c # cs) =
     (case utf8_char c of
        None \<Rightarrow> Inl UnicodeEncodeError
      | Some bs \<Rightarrow> (case encode cs of Inl e \<Rightarrow> Inl e | Inr r \<Rightarrow> Inr (bs @ r)))"

text \<open>\<open>str(n)\<close> and \<open>'{}'.format(n)\<close> for an \<open>int\<close>: decimal, with a minus sign.\<close>

fun str_nat :: "nat \<Rightarrow> pystr" where
  "str_nat n = (if n < 10 then [48 + n] else str_nat (n div 10) @ [48 + n mod 10])"

declare str_nat.simps [simp del]

definition str_int :: "int \<Rightarrow> pystr" where
  "str_int i = (if i < 0 then 45 # str_nat (nat (- i)) else str_nat (nat i))"

text \<open>
  \<open>str.strip()\<close> removes the characters with \<open>str.isspace()\<close> from both ends.
\<close>

definition isspace :: "nat \<Rightarrow> bool" where
  "isspace c =
     ((9 \<le> c \<and> c \<le> 13) \<or> (28 \<le> c \<and> c \<le> 32) \<or> c = 0x85 \<or> c = 0xA0 \<or> c = 0x1680 \<or>
      (0x2000 \<le> c \<and> c \<le> 0x200A) \<or> c = 0x2028 \<or> c = 0x2029 \<or> c = 0x202F \<or>
      c = 0x205F \<or> c = 0x3000)"

definition lstrip :: "pystr \<Rightarrow> pystr" where
  "lstrip s = dropWhile isspace s"

definition rstrip :: "pystr \<Rightarrow> pystr" where
  "rstrip s = rev (dropWhile isspace (rev s))"

definition strip :: "pystr \<Rightarrow> pystr" where
  "strip s = rstrip (lstrip s)"

definition startswith :: "pystr \<Rightarrow> pystr \<Rightarrow> bool" where
  "startswith s p = (take (length p) s = p)"

subsection \<open>\<open>hashlib.sha512\<close> and \<open>_hash\<close>\<close>

text \<open>SHA-512 as FIPS 180-4 defines it, on 64-bit words.\<close>

type_synonym word64 = "64 word"

definition rotr :: "nat \<Rightarrow> word64 \<Rightarrow> word64" where
  "rotr n x = drop_bit n x OR push_bit (64 - n) x"

definition Ch :: "word64 \<Rightarrow> word64 \<Rightarrow> word64 \<Rightarrow> word64" where
  "Ch x y z = (x AND y) XOR (NOT x AND z)"

definition Maj :: "word64 \<Rightarrow> word64 \<Rightarrow> word64 \<Rightarrow> word64" where
  "Maj x y z = (x AND y) XOR (x AND z) XOR (y AND z)"

definition Sigma0 :: "word64 \<Rightarrow> word64" where
  "Sigma0 x = rotr 28 x XOR rotr 34 x XOR rotr 39 x"

definition Sigma1 :: "word64 \<Rightarrow> word64" where
  "Sigma1 x = rotr 14 x XOR rotr 18 x XOR rotr 41 x"

definition sigma0 :: "word64 \<Rightarrow> word64" where
  "sigma0 x = rotr 1 x XOR rotr 8 x XOR drop_bit 7 x"

definition sigma1 :: "word64 \<Rightarrow> word64" where
  "sigma1 x = rotr 19 x XOR rotr 61 x XOR drop_bit 6 x"

definition K512 :: "word64 list" where
  "K512 =
    [0x428A2F98D728AE22, 0x7137449123EF65CD, 0xB5C0FBCFEC4D3B2F, 0xE9B5DBA58189DBBC,
     0x3956C25BF348B538, 0x59F111F1B605D019, 0x923F82A4AF194F9B, 0xAB1C5ED5DA6D8118,
     0xD807AA98A3030242, 0x12835B0145706FBE, 0x243185BE4EE4B28C, 0x550C7DC3D5FFB4E2,
     0x72BE5D74F27B896F, 0x80DEB1FE3B1696B1, 0x9BDC06A725C71235, 0xC19BF174CF692694,
     0xE49B69C19EF14AD2, 0xEFBE4786384F25E3, 0x0FC19DC68B8CD5B5, 0x240CA1CC77AC9C65,
     0x2DE92C6F592B0275, 0x4A7484AA6EA6E483, 0x5CB0A9DCBD41FBD4, 0x76F988DA831153B5,
     0x983E5152EE66DFAB, 0xA831C66D2DB43210, 0xB00327C898FB213F, 0xBF597FC7BEEF0EE4,
     0xC6E00BF33DA88FC2, 0xD5A79147930AA725, 0x06CA6351E003826F, 0x142929670A0E6E70,
     0x27B70A8546D22FFC, 0x2E1B21385C26C926, 0x4D2C6DFC5AC42AED, 0x53380D139D95B3DF,
     0x650A73548BAF63DE, 0x766A0ABB3C77B2A8, 0x81C2C92E47EDAEE6, 0x92722C851482353B,
     0xA2BFE8A14CF10364, 0xA81A664BBC423001, 0xC24B8B70D0F89791, 0xC76C51A30654BE30,
     0xD192E819D6EF5218, 0xD69906245565A910, 0xF40E35855771202A, 0x106AA07032BBD1B8,
     0x19A4C116B8D2D0C8, 0x1E376C085141AB53, 0x2748774CDF8EEB99, 0x34B0BCB5E19B48A8,
     0x391C0CB3C5C95A63, 0x4ED8AA4AE3418ACB, 0x5B9CCA4F7763E373, 0x682E6FF3D6B2B8A3,
     0x748F82EE5DEFB2FC, 0x78A5636F43172F60, 0x84C87814A1F0AB72, 0x8CC702081A6439EC,
     0x90BEFFFA23631E28, 0xA4506CEBDE82BDE9, 0xBEF9A3F7B2C67915, 0xC67178F2E372532B,
     0xCA273ECEEA26619C, 0xD186B8C721C0C207, 0xEADA7DD6CDE0EB1E, 0xF57D4F7FEE6ED178,
     0x06F067AA72176FBA, 0x0A637DC5A2C898A6, 0x113F9804BEF90DAE, 0x1B710B35131C471B,
     0x28DB77F523047D84, 0x32CAAB7B40C72493, 0x3C9EBE0A15C9BEBC, 0x431D67C49C100D4C,
     0x4CC5D4BECB3E42B6, 0x597F299CFC657E2A, 0x5FCB6FAB3AD6FAEC, 0x6C44198C4A475817]"

type_synonym hash_state =
  "word64 \<times> word64 \<times> word64 \<times> word64 \<times> word64 \<times> word64 \<times> word64 \<times> word64"

definition H512 :: hash_state where
  "H512 =
    (0x6A09E667F3BCC908, 0xBB67AE8584CAA73B, 0x3C6EF372FE94F82B, 0xA54FF53A5F1D36F1,
     0x510E527FADE682D1, 0x9B05688C2B3E6C1F, 0x1F83D9ABFB41BD6B, 0x5BE0CD19137E2179)"

text \<open>Big-endian conversions between words and octets.\<close>

definition be_bytes :: "nat \<Rightarrow> 'a::len word \<Rightarrow> bytes" where
  "be_bytes k w = map (\<lambda>i. ucast (drop_bit (8 * i) w)) (rev [0..<k])"

definition be_word64 :: "bytes \<Rightarrow> word64" where
  "be_word64 bs = foldl (\<lambda>acc b. push_bit 8 acc OR ucast b) 0 bs"

text \<open>
  Padding: the octet 0x80, zero octets up to 112 modulo 128, and the length of the
  message in bits as a 128-bit big-endian number.
\<close>

definition sha512_pad :: "bytes \<Rightarrow> bytes" where
  "sha512_pad m =
     m @ [0x80] @ replicate ((239 - length m mod 128) mod 128) 0 @ be_bytes 16 (of_nat (8 * length m) :: 128 word)"

function chunks :: "nat \<Rightarrow> 'a list \<Rightarrow> 'a list list" where
  "chunks n xs = (if n = 0 \<or> xs = [] then [] else take n xs # chunks n (drop n xs))"
  by pat_completeness auto
termination
  by (relation "measure (\<lambda>(n, xs). length xs)") auto

declare chunks.simps [simp del]

text \<open>The message schedule: 16 words of the block, extended to 80.\<close>

fun schedule :: "nat \<Rightarrow> word64 list \<Rightarrow> word64 list" where
  "schedule 0 w = w"
| "schedule (Suc k) w =
     (let t = length w
      in schedule k (w @ [sigma1 (w ! (t - 2)) + w ! (t - 7) + sigma0 (w ! (t - 15)) + w ! (t - 16)]))"

definition sha512_round :: "hash_state \<Rightarrow> word64 \<times> word64 \<Rightarrow> hash_state" where
  "sha512_round s kw =
     (case s of (a, b, c, d, e, f, g, h) \<Rightarrow>
        let t1 = h + Sigma1 e + Ch e f g + fst kw + snd kw;
            t2 = Sigma0 a + Maj a b c
        in (t1 + t2, a, b, c, d + t1, e, f, g))"

definition add_state :: "hash_state \<Rightarrow> hash_state \<Rightarrow> hash_state" where
  "add_state s s' =
     (case s of (a, b, c, d, e, f, g, h) \<Rightarrow>
      case s' of (a', b', c', d', e', f', g', h') \<Rightarrow>
        (a + a', b + b', c + c', d + d', e + e', f + f', g + g', h + h'))"

definition sha512_block :: "hash_state \<Rightarrow> bytes \<Rightarrow> hash_state" where
  "sha512_block s block =
     add_state s
       (foldl sha512_round s (zip K512 (schedule 64 (map be_word64 (chunks 8 block)))))"

definition state_bytes :: "hash_state \<Rightarrow> bytes" where
  "state_bytes s =
     (case s of (a, b, c, d, e, f, g, h) \<Rightarrow>
        concat (map (\<lambda>w. be_bytes 8 w) [a, b, c, d, e, f, g, h]))"

definition sha512 :: "bytes \<Rightarrow> bytes" where
  "sha512 m = state_bytes (foldl sha512_block H512 (chunks 128 (sha512_pad m)))"

text \<open>\<open>.hexdigest()\<close>: two lower-case hexadecimal digits for each octet.\<close>

definition hexdigit :: "nat \<Rightarrow> nat" where
  "hexdigit n = (if n < 10 then 48 + n else 87 + n)"

definition hex_byte :: "byte \<Rightarrow> pystr" where
  "hex_byte b = [hexdigit (unat b div 16), hexdigit (unat b mod 16)]"

definition hexdigest :: "bytes \<Rightarrow> pystr" where
  "hexdigest bs = concat (map hex_byte bs)"

text \<open>Lines 39--40.\<close>

definition hash :: "bytes \<Rightarrow> pystr" where
  "hash data = hexdigest (sha512 data)"

subsection \<open>\<open>float.hex\<close>\<close>

text \<open>
  \<open>time.time()\<close> returns a \<open>float\<close>, an IEEE 754 double; the model holds its 64 bits.
  \<open>float.hex()\<close> prints the sign, the leading digit (1 for a normal number, 0 for zero
  and the subnormal numbers), the 52 bits of the fraction as 13 hexadecimal digits and the
  binary exponent in decimal; infinities and NaNs print as \<open>repr\<close> does.
\<close>

definition hex13 :: "word64 \<Rightarrow> pystr" where
  "hex13 m = map (\<lambda>i. hexdigit (unat (take_bit 4 (drop_bit (4 * i) m)))) (rev [0..<13])"

definition float_hex :: "word64 \<Rightarrow> pystr" where
  "float_hex x =
     (let negative = bit x 63;
          e = unat (take_bit 11 (drop_bit 52 x));
          m = take_bit 52 x
      in if e = 2047 then
           (if m = 0 then (if negative then u ''-inf'' else u ''inf'') else u ''nan'')
         else
           (if negative then u ''-'' else []) @
           (if e = 0 \<and> m = 0 then u ''0x0.0p+0''
            else if e = 0 then u ''0x0.'' @ hex13 m @ u ''p-1022''
            else u ''0x1.'' @ hex13 m @ u ''p'' @
              (if e < 1023 then u ''-'' @ str_nat (1023 - e) else u ''+'' @ str_nat (e - 1023))))"

subsection \<open>The arguments of \<open>deposit\<close> and \<open>withdraw\<close>\<close>

text \<open>
  \<open>value\<close> is any Python object; the client only ever calls \<open>str\<close> on it (line 131).
  \<open>PyObject r\<close> is an object of any other class, given by what \<open>str\<close> does on it:
  it raises (\<open>Inl\<close>) or returns a string (\<open>Inr\<close>).
\<close>

datatype pyvalue =
    PyInt int
  | PyStr pystr
  | PyNone
  | PyBool bool
  | PyObject "exc + pystr"

definition str_value :: "pyvalue \<Rightarrow> exc + pystr" where
  "str_value v =
     (case v of
        PyInt i \<Rightarrow> Inr (str_int i)
      | PyStr s \<Rightarrow> Inr s
      | PyNone \<Rightarrow> Inr (u ''None'')
      | PyBool b \<Rightarrow> Inr (if b then u ''True'' else u ''False'')
      | PyObject r \<Rightarrow> r)"

subsection \<open>The documents \<open>yaml.safe_load\<close> returns\<close>

datatype yaml =
    YNull
  | YBool bool
  | YInt int
  | YFloat word64
  | YStr pystr
  | YBytes bytes
  | YSeq "yaml list"
  | YMap "(yaml \<times> yaml) list"
  | YOther pystr

text \<open>
  \<open>obj[key]\<close> for a string \<open>key\<close>: a dictionary looks the key up (\<open>KeyError\<close> when it
  is missing); every other document raises \<open>TypeError\<close>.
\<close>

definition getitem :: "yaml \<Rightarrow> pystr \<Rightarrow> exc + yaml" where
  "getitem obj key =
     (case obj of
        YMap kvs \<Rightarrow> (case map_of kvs (YStr key) of None \<Rightarrow> Inl (KeyError key) | Some v \<Rightarrow> Inr v)
      | _ \<Rightarrow> Inl TypeError)"

subsection \<open>The messages of the Sawtooth SDK and the HTTP exchange\<close>

record TransactionHeader =
  signer_public_key :: pystr
  family_name :: pystr
  family_version :: pystr
  inputs :: "pystr list"
  outputs :: "pystr list"
  dependencies :: "pystr list"
  payload_sha512 :: pystr
  batcher_public_key :: pystr
  nonce :: bytes

record Transaction =
  header :: bytes
  payload :: bytes
  header_signature :: pystr

text \<open>
  The fields of \<open>BatchHeader\<close> and \<open>Batch\<close> carry the prefix \<open>batch_\<close> where the
  protobuf message reuses a field name of the transaction.
\<close>

record BatchHeader =
  batch_signer_public_key :: pystr
  transaction_ids :: "pystr list"

record Batch =
  batch_header :: bytes
  transactions :: "Transaction list"
  batch_header_signature :: pystr

record BatchList =
  batches :: "Batch list"

datatype http_method = GET | POST

text \<open>
  What \<open>requests.get(url, headers=...)\<close> and \<open>requests.post(url, headers=..., data=...)\<close>
  send, and the attributes of the \<open>Response\<close> that the client reads.
\<close>

record request =
  req_method :: http_method
  req_url :: pystr
  req_headers :: "(pystr \<times> pystr) list"
  req_data :: "bytes option"

record response =
  status_code :: int
  reason :: pystr
  response_text :: pystr

text \<open>
  \<open>Response.ok\<close> of \<open>requests\<close>: false exactly when \<open>raise_for_status()\<close> raises,
  which it does for the status codes 400 to 599.
\<close>

definition ok :: "response \<Rightarrow> bool" where
  "ok r = (\<not> (400 \<le> status_code r \<and> status_code r < 600))"

text \<open>
  The libraries the client calls and does not define: \<open>sawtooth_signing\<close>
  (\<open>Secp256k1PrivateKey.from_hex\<close>, which raises or returns a key; the hexadecimal public
  key of the signer made from a key; \<open>Signer.sign\<close>), the protobuf serialisers
  (\<open>SerializeToString\<close> of the three messages that are serialised), \<open>yaml.safe_load\<close>
  and \<open>base64.b64decode\<close>.  They are arguments of the model.
\<close>

type_synonym privkey = bytes

record sdk =
  from_hex :: "pystr \<Rightarrow> exc + privkey"
  public_key_hex :: "privkey \<Rightarrow> pystr"
  sign :: "privkey \<Rightarrow> bytes \<Rightarrow> pystr"
  serialize_transaction_header :: "TransactionHeader \<Rightarrow> bytes"
  serialize_batch_header :: "BatchHeader \<Rightarrow> bytes"
  serialize_batch_list :: "BatchList \<Rightarrow> bytes"
  yaml_safe_load :: "pystr \<Rightarrow> exc + yaml"
  b64decode :: "yaml \<Rightarrow> exc + bytes"

subsection \<open>The client\<close>

text \<open>Line 37.\<close>

definition FAMILY_NAME :: pystr where
  "FAMILY_NAME = u ''simplewallet''"

text \<open>
  The attributes of a \<open>SimpleWalletClient\<close>.  \<open>_signer\<close> holds \<open>None\<close> or a signer, which
  the model identifies with its private key.  The constructor assigns \<open>_publicKey\<close> and
  \<open>_address\<close> only on the path with a key file: \<open>None\<close> in these two fields says that the
  object has no such attribute, and reading it raises \<open>AttributeError\<close>.
\<close>

record client =
  baseUrl :: pystr
  signer :: "privkey option"
  publicKey :: "pystr option"
  address :: "pystr option"

text \<open>
  \<open>except OSError\<close> catches the class and its subclasses; \<open>requests\<close> derives its
  exceptions from \<open>OSError\<close> (\<open>IOError\<close>).
\<close>

definition as_OSError :: "exc \<Rightarrow> pystr option" where
  "as_OSError e = (case e of OSError m \<Rightarrow> Some m | ConnectionError m \<Rightarrow> Some m | _ \<Rightarrow> None)"

text \<open>
  Lines 71--72, the address of a public key under a namespace:
  \<open>_hash(namespace.encode('utf-8'))[0:6] + _hash(public_key.encode('utf-8'))[0:64]\<close>.
\<close>

definition make_address :: "pystr \<Rightarrow> pystr \<Rightarrow> exc + pystr" where
  "make_address namespace pk =
     (case encode namespace of
        Inl err \<Rightarrow> Inl err
      | Inr ns \<Rightarrow>
         (case encode pk of
            Inl err \<Rightarrow> Inl err
          | Inr kb \<Rightarrow> Inr (take 6 (hash ns) @ take 64 (hash kb))))"

text \<open>
  \<open>__init__\<close>, lines 44--72.  \<open>open_read path\<close> is the outcome of opening the file at
  \<open>path\<close> and reading all of it (lines 53--54, before \<open>strip\<close>): an exception or the text.
\<close>

definition init :: "sdk \<Rightarrow> (pystr \<Rightarrow> exc + pystr) \<Rightarrow> pystr \<Rightarrow> pystr option \<Rightarrow> exc + client" where
  "init lib open_read url keyFile =
     (case keyFile of
        None \<Rightarrow> Inr \<lparr>baseUrl = url, signer = None, publicKey = None, address = None\<rparr>
      | Some path \<Rightarrow>
         (case open_read path of
            Inl err \<Rightarrow>
              (case as_OSError err of
                 Some msg \<Rightarrow>
                   Inl (SimpleWalletException
                          (u ''Failed to read private key '' @ path @ u '': '' @ msg))
               | None \<Rightarrow> Inl err)
          | Inr contents \<Rightarrow>
              (case from_hex lib (strip contents) of
                 Inl (ParseError msg) \<Rightarrow>
                   Inl (SimpleWalletException (u ''Failed to load private key: '' @ msg))
               | Inl err \<Rightarrow> Inl err
               | Inr privateKey \<Rightarrow>
                   (let pk = public_key_hex lib privateKey
                    in case make_address FAMILY_NAME pk of
                         Inl err \<Rightarrow> Inl err
                       | Inr a \<Rightarrow>
                           Inr \<lparr>baseUrl = url, signer = Some privateKey,
                                publicKey = Some pk, address = Some a\<rparr>))))"

text \<open>
  \<open>_send_to_restapi\<close>, lines 93--124.  \<open>http\<close> is the gateway as \<open>requests\<close> shows it:
  for a request, the exception \<open>requests.get\<close>/\<open>requests.post\<close> raises or the response
  it returns.  The second component of the result lists the requests issued.  The
  \<open>SimpleWalletException\<close> of line 114 is raised inside the \<open>try\<close> block: the handler of
  line 121 catches it and raises a second one around it.
\<close>

definition send_to_restapi ::
  "client \<Rightarrow> (request \<Rightarrow> exc + response) \<Rightarrow> pystr \<Rightarrow> bytes option \<Rightarrow> pystr option \<Rightarrow>
     (exc + pystr) \<times> request list" where
  "send_to_restapi c http suffix data contentType =
     (let url = (if startswith (baseUrl c) (u ''http://'')
                 then baseUrl c @ u ''/'' @ suffix
                 else u ''http://'' @ baseUrl c @ u ''/'' @ suffix);
          hdrs = (case contentType of None \<Rightarrow> [] | Some ct \<Rightarrow> [(u ''Content-Type'', ct)]);
          req = (case data of
                   Some d \<Rightarrow> \<lparr>req_method = POST, req_url = url, req_headers = hdrs, req_data = Some d\<rparr>
                 | None \<Rightarrow> \<lparr>req_method = GET, req_url = url, req_headers = hdrs, req_data = None\<rparr>)
      in (case http req of
            Inl (ConnectionError msg) \<Rightarrow>
              Inl (SimpleWalletException (u ''Failed to connect to '' @ url @ u '': '' @ msg))
          | Inl err \<Rightarrow> Inl (SimpleWalletException_of err)
          | Inr result \<Rightarrow>
              if \<not> ok result then
                Inl (SimpleWalletException_of
                       (SimpleWalletException
                          (u ''Error '' @ str_int (status_code result) @ u '': '' @ reason result)))
              else Inr (response_text result),
          [req]))"

text \<open>
  \<open>balance\<close>, lines 84--91.  The call of \<open>_send_to_restapi\<close> stands before the \<open>try\<close>
  block; the block holds the decoding only.  The result \<open>None\<close> is Python's \<open>None\<close>.
\<close>

definition balance ::
  "sdk \<Rightarrow> client \<Rightarrow> (request \<Rightarrow> exc + response) \<Rightarrow> (exc + bytes option) \<times> request list" where
  "balance lib c http =
     (case address c of
        None \<Rightarrow> (Inl (AttributeError (u ''_address'')), [])
      | Some a \<Rightarrow>
         (case send_to_restapi c http (u ''state/'' @ a) None None of
            (Inl err, sent) \<Rightarrow> (Inl err, sent)
          | (Inr result, sent) \<Rightarrow>
              (Inr (case yaml_safe_load lib result of
                      Inl err \<Rightarrow> None
                    | Inr doc \<Rightarrow>
                       (case getitem doc (u ''data'') of
                          Inl err \<Rightarrow> None
                        | Inr d \<Rightarrow> (case b64decode lib d of Inl err \<Rightarrow> None | Inr b \<Rightarrow> Some b))),
               sent)))"

text \<open>
  \<open>_wrap_and_send\<close>, lines 126--180, in the order of its statements.  \<open>now\<close> is the value
  \<open>time.time()\<close> returns at line 146.  Building a protobuf message is taken to succeed.

  Line 131, the payload:
\<close>

definition make_payload :: "pystr \<Rightarrow> pyvalue \<Rightarrow> exc + bytes" where
  "make_payload action v =
     (case str_value v of Inl err \<Rightarrow> Inl err | Inr s \<Rightarrow> encode (action @ u '','' @ s))"

text \<open>Lines 134--146, the \<open>TransactionHeader\<close> before it is serialised:\<close>

definition make_header :: "client \<Rightarrow> word64 \<Rightarrow> bytes \<Rightarrow> exc + TransactionHeader" where
  "make_header c now pl =
     (case address c of
        None \<Rightarrow> Inl (AttributeError (u ''_address''))
      | Some a \<Rightarrow>
         (case publicKey c of
            None \<Rightarrow> Inl (AttributeError (u ''_publicKey''))
          | Some pk \<Rightarrow>
             (case encode (float_hex now) of
                Inl err \<Rightarrow> Inl err
              | Inr n \<Rightarrow>
                  Inr \<lparr>signer_public_key = pk,
                       family_name = FAMILY_NAME,
                       family_version = u ''1.0'',
                       inputs = [a],
                       outputs = [a],
                       dependencies = [],
                       payload_sha512 = hash pl,
                       batcher_public_key = pk,
                       nonce = n\<rparr>)))"

text \<open>
  Lines 131--171, the \<open>BatchList\<close> before it is serialised.  \<open>self._signer.sign\<close> on a
  client whose \<open>_signer\<close> is \<open>None\<close> raises \<open>AttributeError\<close>.
\<close>

definition make_batch_list :: "sdk \<Rightarrow> client \<Rightarrow> word64 \<Rightarrow> pystr \<Rightarrow> pyvalue \<Rightarrow> exc + BatchList" where
  "make_batch_list lib c now action v =
     (case make_payload action v of
        Inl err \<Rightarrow> Inl err
      | Inr pl \<Rightarrow>
         (case make_header c now pl of
            Inl err \<Rightarrow> Inl err
          | Inr th \<Rightarrow>
             (case signer c of
                None \<Rightarrow> Inl (AttributeError (u ''sign''))
              | Some key \<Rightarrow>
                 (case publicKey c of
                    None \<Rightarrow> Inl (AttributeError (u ''_publicKey''))
                  | Some pk \<Rightarrow>
                     (let hd1 = serialize_transaction_header lib th;
                          txn = \<lparr>header = hd1, payload = pl,
                                 header_signature = sign lib key hd1\<rparr>;
                          transactionList = [txn];
                          hd2 = serialize_batch_header lib
                                  \<lparr>batch_signer_public_key = pk,
                                   transaction_ids = map header_signature transactionList\<rparr>;
                          batch = \<lparr>batch_header = hd2, transactions = transactionList,
                                   batch_header_signature = sign lib key hd2\<rparr>
                      in Inr \<lparr>batches = [batch]\<rparr>)))))"

definition wrap_and_send ::
  "sdk \<Rightarrow> client \<Rightarrow> (request \<Rightarrow> exc + response) \<Rightarrow> word64 \<Rightarrow> pystr \<Rightarrow> pyvalue \<Rightarrow>
     (exc + pystr) \<times> request list" where
  "wrap_and_send lib c http now action v =
     (case make_batch_list lib c now action v of
        Inl err \<Rightarrow> (Inl err, [])
      | Inr batch_list \<Rightarrow>
          send_to_restapi c http (u ''batches'') (Some (serialize_batch_list lib batch_list))
            (Some (u ''application/octet-stream'')))"

text \<open>\<open>deposit\<close> and \<open>withdraw\<close>, lines 74--82.\<close>

definition deposit ::
  "sdk \<Rightarrow> client \<Rightarrow> (request \<Rightarrow> exc + response) \<Rightarrow> word64 \<Rightarrow> pyvalue \<Rightarrow>
     (exc + pystr) \<times> request list" where
  "deposit lib c http now v = wrap_and_send lib c http now (u ''deposit'') v"

definition withdraw ::
  "sdk \<Rightarrow> client \<Rightarrow> (request \<Rightarrow> exc + response) \<Rightarrow> word64 \<Rightarrow> pyvalue \<Rightarrow>
     (exc + pystr) \<times> request list" where
  "withdraw lib c http now v = wrap_and_send lib c http now (u ''withdraw'') v"

section \<open>Properties\<close>

subsection \<open>Vocabulary of the statements\<close>

text \<open>The lower-case hexadecimal digits, \<open>0\<close> to \<open>9\<close> and \<open>a\<close> to \<open>f\<close>.\<close>

definition ishex :: "nat \<Rightarrow> bool" where
  "ishex c = ((48 \<le> c \<and> c \<le> 57) \<or> (97 \<le> c \<and> c \<le> 102))"

text \<open>The URL that \<open>_send_to_restapi\<close> builds at lines 97--100.\<close>

definition request_url :: "client \<Rightarrow> pystr \<Rightarrow> pystr" where
  "request_url c suffix =
     (if startswith (baseUrl c) (u ''http://'') then baseUrl c else u ''http://'' @ baseUrl c)
       @ u ''/'' @ suffix"

subsection \<open>A concrete environment\<close>

text \<open>
  Stand-ins for the libraries and the gateway, on which the statements below are
  evaluated: a parser that accepts the hexadecimal text of the private key 1 and no other,
  a public key and an address of the right shape, a signature and serialisers that
  concatenate fields, a loader and a decoder that know one document, a gateway that
  answers every request the same way, and the clock at 1762218000.25 seconds.
\<close>

definition demo_key_hex :: pystr where
  "demo_key_hex = u ''0000000000000000000000000000000000000000000000000000000000000001''"

definition demo_key :: privkey where
  "demo_key = replicate 31 0 @ [1]"

definition demo_public_key :: pystr where
  "demo_public_key = u ''0279be667ef9dcbbac55a06295ce870b07029bfcdb2dce28d959f2815b16f81798''"

definition demo_sdk :: sdk where
  "demo_sdk =
     \<lparr>from_hex = (\<lambda>s. if s = demo_key_hex then Inr demo_key
                      else Inl (ParseError (u ''Unable to parse hex private key''))),
      public_key_hex = (\<lambda>k. demo_public_key),
      sign = (\<lambda>k m. hexdigest (take 2 k @ take 2 m)),
      serialize_transaction_header = (\<lambda>th. nonce th),
      serialize_batch_header = (\<lambda>bh. map of_nat (concat (transaction_ids bh))),
      serialize_batch_list =
        (\<lambda>bl. concat (map (\<lambda>b. batch_header b @ concat (map payload (transactions b)))
                          (batches bl))),
      yaml_safe_load =
        (\<lambda>s. if s = u ''data: MTAw'' then Inr (YMap [(YStr (u ''data''), YStr (u ''MTAw''))])
             else if s = u ''{}'' then Inr (YMap [])
             else Inl (OtherException (u ''YAMLError''))),
      b64decode =
        (\<lambda>d. if d = YStr (u ''MTAw'') then Inr [49, 48, 48]
             else Inl (OtherException (u ''binascii.Error'')))\<rparr>"

definition demo_address :: pystr where
  "demo_address =
     u ''7e266431ac0c4889364442e732517d538700bf44823236f0841ca80b685cede918d600''"

definition demo_client :: client where
  "demo_client =
     \<lparr>baseUrl = u ''localhost:8008'', signer = Some demo_key,
      publicKey = Some demo_public_key, address = Some demo_address\<rparr>"

definition demo_gateway :: "int \<Rightarrow> pystr \<Rightarrow> pystr \<Rightarrow> request \<Rightarrow> exc + response" where
  "demo_gateway code why body req = Inr \<lparr>status_code = code, reason = why, response_text = body\<rparr>"

definition demo_now :: word64 where
  "demo_now = 0x41DA425404100000"

definition demo_payload :: bytes where
  "demo_payload = [100, 101, 112, 111, 115, 105, 116, 44, 49, 48]"

text \<open>
  A base URL has a scheme when \<open>://\<close> stands in it after at least one character.
\<close>

definition has_scheme :: "pystr \<Rightarrow> bool" where
  "has_scheme s = list_ex (\<lambda>i. startswith (drop i s) (u ''://'')) [1..<length s]"

subsection \<open>Digests and addresses\<close>

lemma length_be_bytes: "length (be_bytes k w) = k"
  by (simp add: be_bytes_def)

lemma length_state_bytes: "length (state_bytes s) = 64"
  by (simp add: state_bytes_def length_be_bytes split: prod.splits)

lemma length_sha512: "length (sha512 m) = 64"
  by (simp add: sha512_def length_state_bytes)

lemma length_hexdigest: "length (hexdigest bs) = 2 * length bs"
  by (induction bs) (simp_all add: hexdigest_def hex_byte_def)

lemma length_hash: "length (hash d) = 128"
  by (simp add: hash_def length_hexdigest length_sha512)

lemma ishex_hexdigit: "n < 16 \<Longrightarrow> ishex (hexdigit n)"
  by (auto simp: ishex_def hexdigit_def)

lemma unat_byte_lt: "unat (b :: byte) < 256"
  using unsigned_less [of b, where ?'a = nat] by simp

lemma ishex_hex_byte: "list_all ishex (hex_byte b)"
proof -
  have "unat b div 16 < 16"
    using unat_byte_lt [of b] by simp
  then show ?thesis
    by (simp add: hex_byte_def ishex_hexdigit)
qed

lemma ishex_hexdigest: "list_all ishex (hexdigest bs)"
  by (induction bs) (simp_all add: hexdigest_def ishex_hex_byte)

lemma list_all_take: "list_all P xs \<Longrightarrow> list_all P (take n xs)"
  by (auto simp: list_all_iff dest: in_set_takeD)

lemma encode_FAMILY_NAME:
  "encode FAMILY_NAME = Inr [115, 105, 109, 112, 108, 101, 119, 97, 108, 108, 101, 116]"
  by (simp add: FAMILY_NAME_def u_def utf8_char_def)

text \<open>
  C4.  For every namespace and public key that UTF-8 can encode, the address is the first
  6 characters of the SHA-512 hexadecimal digest of the namespace followed by the first 64
  characters of the digest of the public key; it is a function of the two strings, has 70
  characters, and every character is a hexadecimal digit.
\<close>

theorem address_derivation:
  assumes "encode namespace = Inr ns" and "encode pk = Inr kb"
  shows "\<exists>a. make_address namespace pk = Inr a
           \<and> a = take 6 (hexdigest (sha512 ns)) @ take 64 (hexdigest (sha512 kb))
           \<and> length a = 70 \<and> list_all ishex a"
proof -
  let ?a = "take 6 (hash ns) @ take 64 (hash kb)"
  have "make_address namespace pk = Inr ?a"
    using assms by (simp add: make_address_def)
  moreover have "length ?a = 70"
    by (simp add: length_hash)
  moreover have "list_all ishex ?a"
    by (simp add: hash_def list_all_take ishex_hexdigest)
  ultimately show ?thesis
    by (simp add: hash_def)
qed

theorem address_derivation_witness:
  "encode FAMILY_NAME = Inr [115, 105, 109, 112, 108, 101, 119, 97, 108, 108, 101, 116]
   \<and> encode (u ''02ab'') = Inr [48, 50, 97, 98]
   \<and> (\<exists>a. make_address FAMILY_NAME (u ''02ab'') = Inr a
          \<and> a = take 6 (hexdigest (sha512 [115, 105, 109, 112, 108, 101, 119, 97, 108, 108, 101, 116]))
                @ take 64 (hexdigest (sha512 [48, 50, 97, 98]))
          \<and> length a = 70 \<and> list_all ishex a)"
proof -
  have e: "encode (u ''02ab'') = Inr [48, 50, 97, 98]"
    by (simp add: u_def utf8_char_def)
  show ?thesis
    using address_derivation [OF encode_FAMILY_NAME e] encode_FAMILY_NAME e by simp
qed

text \<open>
  The constructor derives the address of a client with a key file in this way, from the
  family name and the client's public key.
\<close>

lemma init_address:
  assumes "init lib open_read url (Some path) = Inr c"
  shows "\<exists>pk a. publicKey c = Some pk \<and> address c = Some a
           \<and> make_address FAMILY_NAME pk = Inr a"
  using assms
  by (auto simp: init_def Let_def split: sum.splits option.splits exc.splits)

subsection \<open>Encoding\<close>

lemma encode_ascii: "list_all (\<lambda>c. c < 128) s \<Longrightarrow> encode s = Inr (map of_nat s)"
  by (induction s) (simp_all add: utf8_char_def)

lemma encode_append:
  "encode (s @ t) =
     (case encode s of
        Inl e \<Rightarrow> Inl e
      | Inr x \<Rightarrow> (case encode t of Inl e \<Rightarrow> Inl e | Inr y \<Rightarrow> Inr (x @ y)))"
  by (induction s) (simp_all split: option.splits sum.splits)

lemma ascii_str_nat: "list_all (\<lambda>c. c < 128) (str_nat n)"
proof (induction n rule: str_nat.induct)
  case (1 n)
  show ?case
  proof (cases "n < 10")
    case True
    then show ?thesis by (subst str_nat.simps) simp
  next
    case False
    have "n mod 10 < 10" by simp
    then have "48 + n mod 10 < 128" by linarith
    with False 1 show ?thesis by (subst str_nat.simps) simp
  qed
qed

lemma hexdigit_ascii: "n < 16 \<Longrightarrow> hexdigit n < 128"
  by (simp add: hexdigit_def)

lemma unat_take_bit_4: "unat (take_bit 4 (w :: word64)) < 16"
proof -
  have "unat (take_bit 4 w) = take_bit 4 (unat w)"
    by (simp add: unsigned_take_bit_eq)
  also have "\<dots> < 2 ^ 4"
    by (rule take_bit_nat_less_exp)
  finally show ?thesis by simp
qed

lemma ascii_hex13: "list_all (\<lambda>c. c < 128) (hex13 m)"
  by (simp add: hex13_def list_all_iff hexdigit_ascii unat_take_bit_4)

lemma ascii_float_hex: "list_all (\<lambda>c. c < 128) (float_hex x)"
  by (simp add: float_hex_def Let_def u_def ascii_hex13 ascii_str_nat)

lemma encode_float_hex: "encode (float_hex x) = Inr (map of_nat (float_hex x))"
  by (rule encode_ascii [OF ascii_float_hex])

subsection \<open>Building and sending a transaction\<close>

lemma sent_request:
  "snd (send_to_restapi c http suffix data ct) =
     [\<lparr>req_method = (case data of None \<Rightarrow> GET | Some d \<Rightarrow> POST),
       req_url = request_url c suffix,
       req_headers = (case ct of None \<Rightarrow> [] | Some t \<Rightarrow> [(u ''Content-Type'', t)]),
       req_data = data\<rparr>]"
  by (simp add: send_to_restapi_def request_url_def Let_def split: option.splits)

lemma make_header_keyed:
  assumes "publicKey c = Some pk" and "address c = Some a"
  shows "make_header c now pl =
     Inr \<lparr>signer_public_key = pk, family_name = u ''simplewallet'', family_version = u ''1.0'',
          inputs = [a], outputs = [a], dependencies = [],
          payload_sha512 = hexdigest (sha512 pl), batcher_public_key = pk,
          nonce = map of_nat (float_hex now)\<rparr>"
  using assms by (simp add: make_header_def encode_float_hex FAMILY_NAME_def hash_def)

lemma make_batch_list_keyed:
  assumes "signer c = Some key" and "publicKey c = Some pk"
    and "make_header c now pl = Inr th" and "make_payload action v = Inr pl"
  shows "make_batch_list lib c now action v =
     Inr \<lparr>batches =
       [\<lparr>batch_header =
           serialize_batch_header lib
             \<lparr>batch_signer_public_key = pk,
              transaction_ids = [sign lib key (serialize_transaction_header lib th)]\<rparr>,
         transactions =
           [\<lparr>header = serialize_transaction_header lib th, payload = pl,
             header_signature = sign lib key (serialize_transaction_header lib th)\<rparr>],
         batch_header_signature =
           sign lib key
             (serialize_batch_header lib
               \<lparr>batch_signer_public_key = pk,
                transaction_ids = [sign lib key (serialize_transaction_header lib th)]\<rparr>)\<rparr>]\<rparr>"
  using assms by (simp add: make_batch_list_def Let_def)

lemma wrap_and_send_sent:
  assumes "make_batch_list lib c now action v = Inr bl"
  shows "snd (wrap_and_send lib c http now action v) =
     [\<lparr>req_method = POST, req_url = request_url c (u ''batches''),
       req_headers = [(u ''Content-Type'', u ''application/octet-stream'')],
       req_data = Some (serialize_batch_list lib bl)\<rparr>]"
  using assms by (simp add: wrap_and_send_def sent_request)

text \<open>
  C6.  On a client with a key, for every action and every value whose rendering
  \<open>str(value)\<close> UTF-8 can encode, the batch list that \<open>_wrap_and_send\<close> posts holds
  one batch with one transaction; the payload of that transaction is the UTF-8 encoding of
  the action, a comma and the rendering, and the header of the transaction carries the
  SHA-512 hexadecimal digest of the payload, a function of the action and the value.
\<close>

theorem payload_encoding:
  assumes "signer c = Some key" and "publicKey c = Some pk" and "address c = Some a"
    and "str_value v = Inr s" and "encode (action @ u '','' @ s) = Inr pl"
  shows "\<exists>b txn th.
           make_batch_list lib c now action v = Inr \<lparr>batches = [b]\<rparr>
         \<and> transactions b = [txn]
         \<and> payload txn = pl
         \<and> header txn = serialize_transaction_header lib th
         \<and> make_header c now pl = Inr th
         \<and> payload_sha512 th = hexdigest (sha512 pl)
         \<and> snd (wrap_and_send lib c http now action v) =
             [\<lparr>req_method = POST, req_url = request_url c (u ''batches''),
               req_headers = [(u ''Content-Type'', u ''application/octet-stream'')],
               req_data = Some (serialize_batch_list lib \<lparr>batches = [b]\<rparr>)\<rparr>]"
proof -
  have p: "make_payload action v = Inr pl"
    using assms(4,5) by (simp add: make_payload_def)
  note h = make_header_keyed [OF assms(2,3), of now pl]
  note m = make_batch_list_keyed [OF assms(1,2) h p, of lib]
  show ?thesis
    using h m wrap_and_send_sent [OF m, of http] by simp
qed

lemma demo_client_fields:
  "signer demo_client = Some demo_key" "publicKey demo_client = Some demo_public_key"
  "address demo_client = Some demo_address" "baseUrl demo_client = u ''localhost:8008''"
  by (simp_all add: demo_client_def)

lemma str_value_10: "str_value (PyInt 10) = Inr (u ''10'')"
  by (simp add: str_value_def str_int_def str_nat.simps u_def)

lemma encode_deposit_10:
  "encode (u ''deposit'' @ u '','' @ u ''10'') = Inr [100, 101, 112, 111, 115, 105, 116, 44, 49, 48]"
  by (simp add: u_def utf8_char_def)

theorem payload_encoding_witness:
  "signer demo_client = Some demo_key \<and> publicKey demo_client = Some demo_public_key
   \<and> address demo_client = Some demo_address
   \<and> str_value (PyInt 10) = Inr (u ''10'')
   \<and> encode (u ''deposit'' @ u '','' @ u ''10'') = Inr [100, 101, 112, 111, 115, 105, 116, 44, 49, 48]
   \<and> (\<exists>b txn th.
           make_batch_list demo_sdk demo_client demo_now (u ''deposit'') (PyInt 10)
             = Inr \<lparr>batches = [b]\<rparr>
         \<and> transactions b = [txn]
         \<and> payload txn = [100, 101, 112, 111, 115, 105, 116, 44, 49, 48]
         \<and> header txn = serialize_transaction_header demo_sdk th
         \<and> make_header demo_client demo_now [100, 101, 112, 111, 115, 105, 116, 44, 49, 48] = Inr th
         \<and> payload_sha512 th = hexdigest (sha512 [100, 101, 112, 111, 115, 105, 116, 44, 49, 48])
         \<and> snd (wrap_and_send demo_sdk demo_client (demo_gateway 202 (u ''Accepted'') (u ''{}''))
                  demo_now (u ''deposit'') (PyInt 10)) =
             [\<lparr>req_method = POST, req_url = request_url demo_client (u ''batches''),
               req_headers = [(u ''Content-Type'', u ''application/octet-stream'')],
               req_data = Some (serialize_batch_list demo_sdk \<lparr>batches = [b]\<rparr>)\<rparr>])"
  using payload_encoding [OF demo_client_fields(1,2,3) str_value_10 encode_deposit_10,
      of demo_sdk demo_now "demo_gateway 202 (u ''Accepted'') (u ''{}'')"]
    demo_client_fields(1,2,3) str_value_10 encode_deposit_10
  by blast

text \<open>
  C7.  On a client with a key, the transaction header that \<open>_wrap_and_send\<close> serialises,
  signs and posts has the client's public key as signer and as batcher, the family name
  \<open>simplewallet\<close>, the family version \<open>1.0\<close>, the one-element lists of the client's
  address as inputs and as outputs, no dependencies, and the SHA-512 hexadecimal digest of
  the payload.
\<close>

theorem transaction_header_fields:
  assumes "signer c = Some key" and "publicKey c = Some pk" and "address c = Some a"
    and "make_payload action v = Inr pl"
  shows "\<exists>b txn th.
           make_header c now pl = Inr th
         \<and> th = \<lparr>signer_public_key = pk, family_name = u ''simplewallet'',
                  family_version = u ''1.0'', inputs = [a], outputs = [a], dependencies = [],
                  payload_sha512 = hexdigest (sha512 pl), batcher_public_key = pk,
                  nonce = map of_nat (float_hex now)\<rparr>
         \<and> make_batch_list lib c now action v = Inr \<lparr>batches = [b]\<rparr>
         \<and> transactions b = [txn]
         \<and> header txn = serialize_transaction_header lib th
         \<and> header_signature txn = sign lib key (serialize_transaction_header lib th)
         \<and> snd (wrap_and_send lib c http now action v) =
             [\<lparr>req_method = POST, req_url = request_url c (u ''batches''),
               req_headers = [(u ''Content-Type'', u ''application/octet-stream'')],
               req_data = Some (serialize_batch_list lib \<lparr>batches = [b]\<rparr>)\<rparr>]"
proof -
  note h = make_header_keyed [OF assms(2,3), of now pl]
  note m = make_batch_list_keyed [OF assms(1,2) h assms(4), of lib]
  show ?thesis
    using h m wrap_and_send_sent [OF m, of http] by simp
qed

lemma make_payload_deposit_10:
  "make_payload (u ''deposit'') (PyInt 10) = Inr [100, 101, 112, 111, 115, 105, 116, 44, 49, 48]"
  using str_value_10 encode_deposit_10 by (simp add: make_payload_def)

theorem transaction_header_fields_witness:
  "signer demo_client = Some demo_key \<and> publicKey demo_client = Some demo_public_key
   \<and> address demo_client = Some demo_address
   \<and> make_payload (u ''deposit'') (PyInt 10) = Inr [100, 101, 112, 111, 115, 105, 116, 44, 49, 48]
   \<and> (\<exists>b txn th.
           make_header demo_client demo_now [100, 101, 112, 111, 115, 105, 116, 44, 49, 48] = Inr th
         \<and> th = \<lparr>signer_public_key = demo_public_key, family_name = u ''simplewallet'',
                  family_version = u ''1.0'', inputs = [demo_address], outputs = [demo_address],
                  dependencies = [],
                  payload_sha512 = hexdigest (sha512 [100, 101, 112, 111, 115, 105, 116, 44, 49, 48]),
                  batcher_public_key = demo_public_key,
                  nonce = map of_nat (float_hex demo_now)\<rparr>
         \<and> make_batch_list demo_sdk demo_client demo_now (u ''deposit'') (PyInt 10)
             = Inr \<lparr>batches = [b]\<rparr>
         \<and> transactions b = [txn]
         \<and> header txn = serialize_transaction_header demo_sdk th
         \<and> header_signature txn = sign demo_sdk demo_key (serialize_transaction_header demo_sdk th)
         \<and> snd (wrap_and_send demo_sdk demo_client (demo_gateway 202 (u ''Accepted'') (u ''{}''))
                  demo_now (u ''deposit'') (PyInt 10)) =
             [\<lparr>req_method = POST, req_url = request_url demo_client (u ''batches''),
               req_headers = [(u ''Content-Type'', u ''application/octet-stream'')],
               req_data = Some (serialize_batch_list demo_sdk \<lparr>batches = [b]\<rparr>)\<rparr>])"
  using transaction_header_fields [OF demo_client_fields(1,2,3) make_payload_deposit_10,
      of demo_now demo_sdk "demo_gateway 202 (u ''Accepted'') (u ''{}'')"]
    demo_client_fields(1,2,3) make_payload_deposit_10
  by blast

lemma encode_deposit: "encode (u ''deposit'' @ u '','') = Inr [100, 101, 112, 111, 115, 105, 116, 44]"
  by (simp add: u_def utf8_char_def)

lemma encode_withdraw: "encode (u ''withdraw'' @ u '','') = Inr [119, 105, 116, 104, 100, 114, 97, 119, 44]"
  by (simp add: u_def utf8_char_def)

text \<open>
  C10.  \<open>deposit\<close> and \<open>withdraw\<close> do not validate the value.  On a client with a
  key, for every value whose rendering \<open>str(value)\<close> UTF-8 can encode (a negative number
  and a string that is no number among them), the payload posted is the action, a comma
  and the rendering, unchanged.
\<close>

theorem deposit_withdraw_payload:
  assumes "signer c = Some key" and "publicKey c = Some pk" and "address c = Some a"
    and "str_value v = Inr s" and "encode s = Inr sb"
  shows "(\<exists>b txn.
            make_batch_list lib c now (u ''deposit'') v = Inr \<lparr>batches = [b]\<rparr>
          \<and> transactions b = [txn]
          \<and> encode (u ''deposit'' @ u '','' @ s) = Inr (payload txn)
          \<and> payload txn = [100, 101, 112, 111, 115, 105, 116, 44] @ sb
          \<and> snd (deposit lib c http now v) =
              [\<lparr>req_method = POST, req_url = request_url c (u ''batches''),
                req_headers = [(u ''Content-Type'', u ''application/octet-stream'')],
                req_data = Some (serialize_batch_list lib \<lparr>batches = [b]\<rparr>)\<rparr>])
       \<and> (\<exists>b txn.
            make_batch_list lib c now (u ''withdraw'') v = Inr \<lparr>batches = [b]\<rparr>
          \<and> transactions b = [txn]
          \<and> encode (u ''withdraw'' @ u '','' @ s) = Inr (payload txn)
          \<and> payload txn = [119, 105, 116, 104, 100, 114, 97, 119, 44] @ sb
          \<and> snd (withdraw lib c http now v) =
              [\<lparr>req_method = POST, req_url = request_url c (u ''batches''),
                req_headers = [(u ''Content-Type'', u ''application/octet-stream'')],
                req_data = Some (serialize_batch_list lib \<lparr>batches = [b]\<rparr>)\<rparr>])"
proof -
  have ed: "encode (u ''deposit'' @ u '','' @ s) = Inr ([100, 101, 112, 111, 115, 105, 116, 44] @ sb)"
    using encode_append [of "u ''deposit'' @ u '',''" s] encode_deposit assms(5) by simp
  have ew: "encode (u ''withdraw'' @ u '','' @ s) = Inr ([119, 105, 116, 104, 100, 114, 97, 119, 44] @ sb)"
    using encode_append [of "u ''withdraw'' @ u '',''" s] encode_withdraw assms(5) by simp
  have pd: "make_payload (u ''deposit'') v = Inr ([100, 101, 112, 111, 115, 105, 116, 44] @ sb)"
    using assms(4) ed by (simp add: make_payload_def)
  have pw: "make_payload (u ''withdraw'') v = Inr ([119, 105, 116, 104, 100, 114, 97, 119, 44] @ sb)"
    using assms(4) ew by (simp add: make_payload_def)
  note hd = make_header_keyed [OF assms(2,3), of now "[100, 101, 112, 111, 115, 105, 116, 44] @ sb"]
  note hw = make_header_keyed [OF assms(2,3), of now "[119, 105, 116, 104, 100, 114, 97, 119, 44] @ sb"]
  note md = make_batch_list_keyed [OF assms(1,2) hd pd, of lib]
  note mw = make_batch_list_keyed [OF assms(1,2) hw pw, of lib]
  have d: "\<exists>b txn.
            make_batch_list lib c now (u ''deposit'') v = Inr \<lparr>batches = [b]\<rparr>
          \<and> transactions b = [txn]
          \<and> encode (u ''deposit'' @ u '','' @ s) = Inr (payload txn)
          \<and> payload txn = [100, 101, 112, 111, 115, 105, 116, 44] @ sb
          \<and> snd (deposit lib c http now v) =
              [\<lparr>req_method = POST, req_url = request_url c (u ''batches''),
                req_headers = [(u ''Content-Type'', u ''application/octet-stream'')],
                req_data = Some (serialize_batch_list lib \<lparr>batches = [b]\<rparr>)\<rparr>]"
    using md ed wrap_and_send_sent [OF md, of http] by (simp add: deposit_def)
  have w: "\<exists>b txn.
            make_batch_list lib c now (u ''withdraw'') v = Inr \<lparr>batches = [b]\<rparr>
          \<and> transactions b = [txn]
          \<and> encode (u ''withdraw'' @ u '','' @ s) = Inr (payload txn)
          \<and> payload txn = [119, 105, 116, 104, 100, 114, 97, 119, 44] @ sb
          \<and> snd (withdraw lib c http now v) =
              [\<lparr>req_method = POST, req_url = request_url c (u ''batches''),
                req_headers = [(u ''Content-Type'', u ''application/octet-stream'')],
                req_data = Some (serialize_batch_list lib \<lparr>batches = [b]\<rparr>)\<rparr>]"
    using mw ew wrap_and_send_sent [OF mw, of http] by (simp add: withdraw_def)
  from d w show ?thesis by (rule conjI)
qed

lemma str_value_minus_5: "str_value (PyInt (- 5)) = Inr (u ''-5'')"
  by (simp add: str_value_def str_int_def str_nat.simps u_def)

lemma encode_minus_5: "encode (u ''-5'') = Inr [45, 53]"
  by (simp add: u_def utf8_char_def)

theorem deposit_withdraw_payload_witness:
  "signer demo_client = Some demo_key \<and> publicKey demo_client = Some demo_public_key
   \<and> address demo_client = Some demo_address
   \<and> str_value (PyInt (- 5)) = Inr (u ''-5'') \<and> encode (u ''-5'') = Inr [45, 53]
   \<and> (\<exists>b txn.
            make_batch_list demo_sdk demo_client demo_now (u ''deposit'') (PyInt (- 5))
              = Inr \<lparr>batches = [b]\<rparr>
          \<and> transactions b = [txn]
          \<and> encode (u ''deposit'' @ u '','' @ u ''-5'') = Inr (payload txn)
          \<and> payload txn = [100, 101, 112, 111, 115, 105, 116, 44, 45, 53]
          \<and> snd (deposit demo_sdk demo_client (demo_gateway 202 (u ''Accepted'') (u ''{}''))
                   demo_now (PyInt (- 5))) =
              [\<lparr>req_method = POST, req_url = u ''http://localhost:8008/batches'',
                req_headers = [(u ''Content-Type'', u ''application/octet-stream'')],
                req_data = Some (serialize_batch_list demo_sdk \<lparr>batches = [b]\<rparr>)\<rparr>])
   \<and> (\<exists>b txn.
            make_batch_list demo_sdk demo_client demo_now (u ''withdraw'') (PyInt (- 5))
              = Inr \<lparr>batches = [b]\<rparr>
          \<and> transactions b = [txn]
          \<and> encode (u ''withdraw'' @ u '','' @ u ''-5'') = Inr (payload txn)
          \<and> payload txn = [119, 105, 116, 104, 100, 114, 97, 119, 44, 45, 53]
          \<and> snd (withdraw demo_sdk demo_client (demo_gateway 202 (u ''Accepted'') (u ''{}''))
                   demo_now (PyInt (- 5))) =
              [\<lparr>req_method = POST, req_url = u ''http://localhost:8008/batches'',
                req_headers = [(u ''Content-Type'', u ''application/octet-stream'')],
                req_data = Some (serialize_batch_list demo_sdk \<lparr>batches = [b]\<rparr>)\<rparr>])"
proof -
  have url: "request_url demo_client (u ''batches'') = u ''http://localhost:8008/batches''"
    by (simp add: request_url_def demo_client_def startswith_def u_def)
  show ?thesis
    using deposit_withdraw_payload [OF demo_client_fields(1,2,3) str_value_minus_5 encode_minus_5,
        of demo_sdk demo_now "demo_gateway 202 (u ''Accepted'') (u ''{}'')"]
      demo_client_fields(1,2,3) str_value_minus_5 encode_minus_5
    by (simp add: url)
qed

subsection \<open>The nonce\<close>

lemma of_nat_byte_inj:
  assumes "list_all (\<lambda>c. c < 128) s" and "list_all (\<lambda>c. c < 128) t"
    and "map of_nat s = (map of_nat t :: bytes)"
  shows "s = t"
  using assms
proof (induction s arbitrary: t)
  case Nil
  then show ?case by simp
next
  case (Cons x xs)
  then obtain y ys where t: "t = y # ys" by (cases t) auto
  from Cons.prems t have xy: "(of_nat x :: byte) = of_nat y" and "x < 128" and "y < 128"
    by simp_all
  then have "x = y"
    by (simp add: word_of_nat_eq_iff take_bit_nat_eq_self)
  moreover have "xs = ys"
    using Cons.IH [of ys] Cons.prems t by simp
  ultimately show ?case using t by simp
qed

text \<open>
  C3, amended.  The nonce of a transaction header is the encoding of
  \<open>time.time().hex()\<close> and nothing else: two calls carry different nonces exactly when
  their clock readings print differently.  Two calls that read the same clock value carry
  the same nonce and, for the same action and value, the same header.
\<close>

theorem nonce_from_clock:
  assumes "make_header c now1 pl1 = Inr th1" and "make_header c now2 pl2 = Inr th2"
  shows "(nonce th1 = nonce th2) = (float_hex now1 = float_hex now2)
       \<and> (now1 = now2 \<longrightarrow> nonce th1 = nonce th2)
       \<and> (now1 = now2 \<and> pl1 = pl2 \<longrightarrow> th1 = th2)"
proof -
  from assms(1) obtain pk a where c: "publicKey c = Some pk" "address c = Some a"
    by (auto simp: make_header_def split: option.splits)
  have n1: "nonce th1 = map of_nat (float_hex now1)"
    using assms(1) make_header_keyed [OF c, of now1 pl1] by auto
  have n2: "nonce th2 = map of_nat (float_hex now2)"
    using assms(2) make_header_keyed [OF c, of now2 pl2] by auto
  have "(nonce th1 = nonce th2) = (float_hex now1 = float_hex now2)"
    using n1 n2 of_nat_byte_inj [OF ascii_float_hex ascii_float_hex, of now1 now2] by auto
  moreover have "now1 = now2 \<and> pl1 = pl2 \<longrightarrow> th1 = th2"
    using assms by auto
  ultimately show ?thesis by simp
qed

lemma float_hex_demo_now: "float_hex demo_now = u ''0x1.a425404100000p+30''"
  by (simp add: float_hex_def demo_now_def Let_def hex13_def hexdigit_def u_def
        str_nat.simps bit_iff_odd drop_bit_eq_div take_bit_eq_mod upt_rec)

lemma make_header_demo:
  "make_header demo_client now demo_payload =
     Inr \<lparr>signer_public_key = demo_public_key, family_name = u ''simplewallet'',
          family_version = u ''1.0'', inputs = [demo_address], outputs = [demo_address],
          dependencies = [], payload_sha512 = hexdigest (sha512 demo_payload),
          batcher_public_key = demo_public_key, nonce = map of_nat (float_hex now)\<rparr>"
  by (rule make_header_keyed [OF demo_client_fields(2,3)])

theorem nonce_from_clock_witness:
  "\<exists>th1 th2.
       make_header demo_client demo_now demo_payload = Inr th1
     \<and> make_header demo_client (demo_now + 1) demo_payload = Inr th2
     \<and> (nonce th1 = nonce th2) = (float_hex demo_now = float_hex (demo_now + 1))
     \<and> float_hex demo_now = u ''0x1.a425404100000p+30''
     \<and> float_hex (demo_now + 1) = u ''0x1.a425404100001p+30''
     \<and> nonce th1 \<noteq> nonce th2"
proof -
  have f2: "float_hex (demo_now + 1) = u ''0x1.a425404100001p+30''"
    by (simp add: float_hex_def demo_now_def Let_def hex13_def hexdigit_def u_def
          str_nat.simps bit_iff_odd drop_bit_eq_div take_bit_eq_mod upt_rec)
  have ne: "float_hex demo_now \<noteq> float_hex (demo_now + 1)"
    unfolding f2 float_hex_demo_now by (simp add: u_def)
  show ?thesis
    using nonce_from_clock [OF make_header_demo [of demo_now] make_header_demo [of "demo_now + 1"]]
      make_header_demo [of demo_now] make_header_demo [of "demo_now + 1"]
      float_hex_demo_now f2 ne
    by simp
qed

text \<open>
  Two calls on the same client, with the same payload, at the clock reading
  1762218000.25: both headers carry the nonce \<open>0x1.a425404100000p+30\<close>.
\<close>

theorem nonce_collision:
  "(\<exists>th. make_header demo_client demo_now demo_payload = Inr th
         \<and> nonce th = map of_nat (u ''0x1.a425404100000p+30''))
   \<and> \<not> (\<forall>now1 now2 th1 th2.
          make_header demo_client now1 demo_payload = Inr th1
        \<and> make_header demo_client now2 demo_payload = Inr th2
        \<longrightarrow> nonce th1 \<noteq> nonce th2)"
proof -
  have "\<exists>th. make_header demo_client demo_now demo_payload = Inr th
         \<and> nonce th = map of_nat (u ''0x1.a425404100000p+30'')"
    using make_header_demo [of demo_now] float_hex_demo_now by simp
  moreover have "\<not> (\<forall>now1 now2 th1 th2.
          make_header demo_client now1 demo_payload = Inr th1
        \<and> make_header demo_client now2 demo_payload = Inr th2
        \<longrightarrow> nonce th1 \<noteq> nonce th2)"
    using make_header_demo [of demo_now] by blast
  ultimately show ?thesis by (rule conjI)
qed

subsection \<open>The request and its outcomes\<close>

text \<open>
  C8, amended.  \<open>_send_to_restapi\<close> issues one request.  Its URL is the base URL, with
  \<open>http://\<close> put in front exactly when the base URL does not start with \<open>http://\<close>,
  followed by \<open>/\<close> and the suffix.  It is a GET when no data is given and a POST with
  the data otherwise; it carries a \<open>Content-Type\<close> header exactly when a content type
  is given.
\<close>

theorem restapi_request_shape:
  "snd (send_to_restapi c http suffix data ct) =
     [\<lparr>req_method = (case data of None \<Rightarrow> GET | Some d \<Rightarrow> POST),
       req_url = (if startswith (baseUrl c) (u ''http://'') then baseUrl c
                  else u ''http://'' @ baseUrl c) @ u ''/'' @ suffix,
       req_headers = (case ct of None \<Rightarrow> [] | Some t \<Rightarrow> [(u ''Content-Type'', t)]),
       req_data = data\<rparr>]"
  by (simp add: send_to_restapi_def Let_def split: option.splits)

text \<open>
  A base URL with the scheme \<open>https\<close> does not start with \<open>http://\<close> and is
  prefixed all the same.
\<close>

theorem https_base_url_is_prefixed:
  "has_scheme (u ''https://localhost:8008'')
   \<and> snd (send_to_restapi
            \<lparr>baseUrl = u ''https://localhost:8008'', signer = None, publicKey = None,
             address = None\<rparr>
            (demo_gateway 200 (u ''OK'') (u ''{}'')) (u ''batches'') None None) =
       [\<lparr>req_method = GET, req_url = u ''http://https://localhost:8008/batches'',
         req_headers = [], req_data = None\<rparr>]"
  by (simp add: has_scheme_def send_to_restapi_def Let_def startswith_def u_def upt_rec)

lemma send_to_restapi_cases:
  "send_to_restapi c http suffix data ct =
     (case http \<lparr>req_method = (case data of None \<Rightarrow> GET | Some d \<Rightarrow> POST),
                 req_url = request_url c suffix,
                 req_headers = (case ct of None \<Rightarrow> [] | Some t \<Rightarrow> [(u ''Content-Type'', t)]),
                 req_data = data\<rparr> of
        Inl (ConnectionError msg) \<Rightarrow>
          Inl (SimpleWalletException
                 (u ''Failed to connect to '' @ request_url c suffix @ u '': '' @ msg))
      | Inl err \<Rightarrow> Inl (SimpleWalletException_of err)
      | Inr result \<Rightarrow>
          if \<not> ok result then
            Inl (SimpleWalletException_of
                   (SimpleWalletException
                      (u ''Error '' @ str_int (status_code result) @ u '': '' @ reason result)))
          else Inr (response_text result),
      [\<lparr>req_method = (case data of None \<Rightarrow> GET | Some d \<Rightarrow> POST),
        req_url = request_url c suffix,
        req_headers = (case ct of None \<Rightarrow> [] | Some t \<Rightarrow> [(u ''Content-Type'', t)]),
        req_data = data\<rparr>])"
  unfolding send_to_restapi_def request_url_def Let_def
  by (cases "startswith (baseUrl c) (u ''http://'')"; cases data; cases ct)
     (simp_all split: sum.splits exc.splits)

text \<open>
  C5, amended.  \<open>_send_to_restapi\<close> raises a \<open>SimpleWalletException\<close> if and only if
  the status code of the response is one of 400 to 599 (\<open>Response.ok\<close> is false; the
  exception wraps one whose message is \<open>Error\<close>, the status code and the reason) or
  \<open>requests\<close> raises (a \<open>ConnectionError\<close> gives the message \<open>Failed to connect to\<close>
  with the URL and the error's text, any other exception is wrapped as it is).  For every
  other status code it returns the text of the response.
\<close>

theorem send_to_restapi_outcomes:
  assumes "snd (send_to_restapi c http suffix data ct) = [req]"
  shows "(\<forall>r. http req = Inr r \<and> ok r \<longrightarrow>
            fst (send_to_restapi c http suffix data ct) = Inr (response_text r))
       \<and> (\<forall>r. http req = Inr r \<and> \<not> ok r \<longrightarrow>
            fst (send_to_restapi c http suffix data ct) =
              Inl (SimpleWalletException_of
                     (SimpleWalletException
                        (u ''Error '' @ str_int (status_code r) @ u '': '' @ reason r))))
       \<and> (\<forall>msg. http req = Inl (ConnectionError msg) \<longrightarrow>
            fst (send_to_restapi c http suffix data ct) =
              Inl (SimpleWalletException
                     (u ''Failed to connect to '' @ req_url req @ u '': '' @ msg)))
       \<and> (\<forall>e. http req = Inl e \<and> (\<forall>msg. e \<noteq> ConnectionError msg) \<longrightarrow>
            fst (send_to_restapi c http suffix data ct) = Inl (SimpleWalletException_of e))
       \<and> ((\<exists>e. fst (send_to_restapi c http suffix data ct) = Inl e) =
            ((\<exists>e. http req = Inl e)
             \<or> (\<exists>r. http req = Inr r \<and> 400 \<le> status_code r \<and> status_code r < 600)))"
proof -
  let ?req = "\<lparr>req_method = (case data of None \<Rightarrow> GET | Some d \<Rightarrow> POST),
                req_url = request_url c suffix,
                req_headers = (case ct of None \<Rightarrow> [] | Some t \<Rightarrow> [(u ''Content-Type'', t)]),
                req_data = data\<rparr>"
  have req: "req = ?req"
    using assms by (simp add: send_to_restapi_cases)
  show ?thesis
    unfolding req send_to_restapi_cases
    by (cases "http ?req") (auto simp: ok_def split: exc.splits)
qed

theorem send_to_restapi_outcomes_witness:
  "snd (send_to_restapi demo_client (demo_gateway 404 (u ''Not Found'') (u ''''))
          (u ''batches'') (Some demo_payload) (Some (u ''application/octet-stream''))) =
     [\<lparr>req_method = POST, req_url = u ''http://localhost:8008/batches'',
       req_headers = [(u ''Content-Type'', u ''application/octet-stream'')],
       req_data = Some demo_payload\<rparr>]
   \<and> fst (send_to_restapi demo_client (demo_gateway 404 (u ''Not Found'') (u ''''))
          (u ''batches'') (Some demo_payload) (Some (u ''application/octet-stream''))) =
       Inl (SimpleWalletException_of (SimpleWalletException (u ''Error 404: Not Found'')))
   \<and> fst (send_to_restapi demo_client (\<lambda>req. Inl (ConnectionError (u ''refused'')))
          (u ''batches'') (Some demo_payload) (Some (u ''application/octet-stream''))) =
       Inl (SimpleWalletException (u ''Failed to connect to http://localhost:8008/batches: refused''))"
proof -
  let ?req = "\<lparr>req_method = POST, req_url = u ''http://localhost:8008/batches'',
       req_headers = [(u ''Content-Type'', u ''application/octet-stream'')],
       req_data = Some demo_payload\<rparr>"
  have url: "request_url demo_client (u ''batches'') = u ''http://localhost:8008/batches''"
    by (simp add: request_url_def demo_client_def startswith_def u_def)
  have s1: "snd (send_to_restapi demo_client (demo_gateway 404 (u ''Not Found'') (u ''''))
          (u ''batches'') (Some demo_payload) (Some (u ''application/octet-stream''))) = [?req]"
    by (simp add: sent_request url)
  have s2: "snd (send_to_restapi demo_client (\<lambda>req. Inl (ConnectionError (u ''refused'')))
          (u ''batches'') (Some demo_payload) (Some (u ''application/octet-stream''))) = [?req]"
    by (simp add: sent_request url)
  have g: "demo_gateway 404 (u ''Not Found'') (u '''') ?req =
             Inr \<lparr>status_code = 404, reason = u ''Not Found'', response_text = u ''''\<rparr>"
    by (simp add: demo_gateway_def)
  have nok: "\<not> ok \<lparr>status_code = 404, reason = u ''Not Found'', response_text = u ''''\<rparr>"
    by (simp add: ok_def)
  have m: "u ''Error '' @ str_int 404 @ u '': '' @ u ''Not Found'' = u ''Error 404: Not Found''"
    by (simp add: u_def str_int_def str_nat.simps)
  have m2: "u ''Failed to connect to '' @ u ''http://localhost:8008/batches'' @ u '': '' @ u ''refused''
             = u ''Failed to connect to http://localhost:8008/batches: refused''"
    by (simp add: u_def)
  show ?thesis
    using send_to_restapi_outcomes [OF s1] send_to_restapi_outcomes [OF s2] s1 g nok m m2
    by simp
qed

text \<open>
  The status 304 is no success status (it is not 2xx), and \<open>Response.ok\<close> is true for it:
  the text of the response is returned and nothing is raised.
\<close>

theorem redirect_status_is_returned:
  "fst (send_to_restapi demo_client (demo_gateway 304 (u ''Not Modified'') (u ''''))
          (u ''state/'' @ demo_address) None None) = Inr (u '''')"
  by (simp add: send_to_restapi_cases demo_gateway_def ok_def)

subsection \<open>\<open>balance\<close>\<close>

text \<open>
  C1, amended.  On a client with an address, \<open>balance\<close> issues one GET for the state
  entry.  When the fetch succeeds (a response whose \<open>ok\<close> is true), \<open>balance\<close> does
  not raise: it returns \<open>None\<close> when the document cannot be loaded, when it has no
  \<open>data\<close> entry or when the entry is no base64 text, and the decoded bytes otherwise.
  When the fetch fails, \<open>balance\<close> raises the \<open>SimpleWalletException\<close> that
  \<open>_send_to_restapi\<close> raises; these are the only cases in which it raises.
\<close>

theorem balance_soft_failure:
  assumes "address c = Some a"
    and "req = \<lparr>req_method = GET, req_url = request_url c (u ''state/'' @ a),
                 req_headers = [], req_data = None\<rparr>"
  shows "snd (balance lib c http) = [req]
       \<and> (\<forall>r. http req = Inr r \<and> ok r \<longrightarrow>
            (\<exists>res. fst (balance lib c http) = Inr res
               \<and> (\<forall>e. yaml_safe_load lib (response_text r) = Inl e \<longrightarrow> res = None)
               \<and> (\<forall>doc e. yaml_safe_load lib (response_text r) = Inr doc
                           \<and> getitem doc (u ''data'') = Inl e \<longrightarrow> res = None)
               \<and> (\<forall>doc d e. yaml_safe_load lib (response_text r) = Inr doc
                           \<and> getitem doc (u ''data'') = Inr d
                           \<and> b64decode lib d = Inl e \<longrightarrow> res = None)
               \<and> (\<forall>doc d b. yaml_safe_load lib (response_text r) = Inr doc
                           \<and> getitem doc (u ''data'') = Inr d
                           \<and> b64decode lib d = Inr b \<longrightarrow> res = Some b)))
       \<and> ((\<exists>e. fst (balance lib c http) = Inl e) = (\<not> (\<exists>r. http req = Inr r \<and> ok r)))
       \<and> (\<forall>e. fst (balance lib c http) = Inl e \<longrightarrow>
            fst (send_to_restapi c http (u ''state/'' @ a) None None) = Inl e
            \<and> (\<exists>m x. e = SimpleWalletException m \<or> e = SimpleWalletException_of x))"
proof -
  have s: "send_to_restapi c http (u ''state/'' @ a) None None =
      (case http req of
        Inl (ConnectionError msg) \<Rightarrow>
          Inl (SimpleWalletException
                 (u ''Failed to connect to '' @ request_url c (u ''state/'' @ a) @ u '': '' @ msg))
      | Inl err \<Rightarrow> Inl (SimpleWalletException_of err)
      | Inr result \<Rightarrow>
          if \<not> ok result then
            Inl (SimpleWalletException_of
                   (SimpleWalletException
                      (u ''Error '' @ str_int (status_code result) @ u '': '' @ reason result)))
          else Inr (response_text result),
      [req])"
    unfolding assms(2) by (simp add: send_to_restapi_cases)
  show ?thesis
  proof (cases "http req")
    case (Inl e)
    then show ?thesis
      using assms(1) by (cases e) (simp_all add: balance_def s)
  next
    case (Inr r)
    then show ?thesis
      using assms(1)
      by (cases "ok r") (auto simp: balance_def s split: sum.splits)
  qed
qed

theorem balance_soft_failure_witness:
  "address demo_client = Some demo_address
   \<and> balance demo_sdk demo_client (demo_gateway 200 (u ''OK'') (u ''data: MTAw'')) =
       (Inr (Some [49, 48, 48]),
        [\<lparr>req_method = GET, req_url = request_url demo_client (u ''state/'' @ demo_address),
          req_headers = [], req_data = None\<rparr>])
   \<and> balance demo_sdk demo_client (demo_gateway 200 (u ''OK'') (u ''{}'')) =
       (Inr None,
        [\<lparr>req_method = GET, req_url = request_url demo_client (u ''state/'' @ demo_address),
          req_headers = [], req_data = None\<rparr>])
   \<and> balance demo_sdk demo_client (demo_gateway 200 (u ''OK'') (u ''<html>'')) =
       (Inr None,
        [\<lparr>req_method = GET, req_url = request_url demo_client (u ''state/'' @ demo_address),
          req_headers = [], req_data = None\<rparr>])"
proof -
  let ?req = "\<lparr>req_method = GET, req_url = request_url demo_client (u ''state/'' @ demo_address),
          req_headers = [], req_data = None\<rparr>"
  have ok: "ok \<lparr>status_code = 200, reason = u ''OK'', response_text = body\<rparr>" for body
    by (simp add: ok_def)
  have y1: "yaml_safe_load demo_sdk (u ''data: MTAw'') = Inr (YMap [(YStr (u ''data''), YStr (u ''MTAw''))])"
    by (simp add: demo_sdk_def)
  have y2: "yaml_safe_load demo_sdk (u ''{}'') = Inr (YMap [])"
    by (simp add: demo_sdk_def u_def)
  have y3: "yaml_safe_load demo_sdk (u ''<html>'') = Inl (OtherException (u ''YAMLError''))"
    by (simp add: demo_sdk_def u_def)
  have g1: "getitem (YMap [(YStr (u ''data''), YStr (u ''MTAw''))]) (u ''data'') = Inr (YStr (u ''MTAw''))"
    by (simp add: getitem_def)
  have g2: "getitem (YMap []) (u ''data'') = Inl (KeyError (u ''data''))"
    by (simp add: getitem_def)
  have b1: "b64decode demo_sdk (YStr (u ''MTAw'')) = Inr [49, 48, 48]"
    by (simp add: demo_sdk_def)
  show ?thesis
    using balance_soft_failure [OF demo_client_fields(3) refl, of demo_sdk
          "demo_gateway 200 (u ''OK'') (u ''data: MTAw'')"]
      balance_soft_failure [OF demo_client_fields(3) refl, of demo_sdk
          "demo_gateway 200 (u ''OK'') (u ''{}'')"]
      balance_soft_failure [OF demo_client_fields(3) refl, of demo_sdk
          "demo_gateway 200 (u ''OK'') (u ''<html>'')"]
      demo_client_fields(3) ok y1 y2 y3 g1 g2 b1
    by (auto simp: demo_gateway_def prod_eq_iff)
qed

text \<open>
  A gateway that answers 404, and a gateway that cannot be reached: \<open>balance\<close> raises.
\<close>

theorem balance_raises_when_fetch_fails:
  "balance demo_sdk demo_client (demo_gateway 404 (u ''Not Found'') (u '''')) =
     (Inl (SimpleWalletException_of (SimpleWalletException (u ''Error 404: Not Found''))),
      [\<lparr>req_method = GET, req_url = u ''http://localhost:8008/state/'' @ demo_address,
        req_headers = [], req_data = None\<rparr>])
   \<and> balance demo_sdk demo_client (\<lambda>req. Inl (ConnectionError (u ''refused''))) =
     (Inl (SimpleWalletException
             (u ''Failed to connect to http://localhost:8008/state/'' @ demo_address @ u '': refused'')),
      [\<lparr>req_method = GET, req_url = u ''http://localhost:8008/state/'' @ demo_address,
        req_headers = [], req_data = None\<rparr>])"
proof -
  have url: "request_url demo_client (u ''state/'' @ demo_address)
               = u ''http://localhost:8008/state/'' @ demo_address"
    by (simp add: request_url_def demo_client_def startswith_def u_def)
  have m1: "u ''Error '' @ str_int 404 @ u '': '' @ u ''Not Found'' = u ''Error 404: Not Found''"
    by (simp add: u_def str_int_def str_nat.simps)
  have m2: "u ''Failed to connect to '' @ u ''http://localhost:8008/state/'' @ demo_address
              @ u '': '' @ u ''refused''
            = u ''Failed to connect to http://localhost:8008/state/'' @ demo_address @ u '': refused''"
    by (simp add: u_def)
  show ?thesis
    by (simp add: balance_def demo_client_fields send_to_restapi_cases url demo_gateway_def
          ok_def m1 m2)
qed

text \<open>
  C2.  A client constructed with no key file has neither \<open>_address\<close> nor \<open>_publicKey\<close>:
  \<open>balance\<close>, \<open>deposit\<close> and \<open>withdraw\<close> raise \<open>AttributeError\<close> and send nothing.
\<close>

theorem keyless_client_raises:
  "init lib open_read url None =
     Inr \<lparr>baseUrl = url, signer = None, publicKey = None, address = None\<rparr>
   \<and> balance lib \<lparr>baseUrl = url, signer = None, publicKey = None, address = None\<rparr> http =
       (Inl (AttributeError (u ''_address'')), [])
   \<and> deposit lib \<lparr>baseUrl = url, signer = None, publicKey = None, address = None\<rparr> http now
       (PyInt 10) = (Inl (AttributeError (u ''_address'')), [])
   \<and> withdraw lib \<lparr>baseUrl = url, signer = None, publicKey = None, address = None\<rparr> http now
       (PyInt 10) = (Inl (AttributeError (u ''_address'')), [])"
proof -
  have p: "\<exists>pl. make_payload act (PyInt 10) = Inr pl" if "list_all (\<lambda>c. c < 128) act" for act
  proof -
    have "list_all (\<lambda>c. c < 128) (act @ u '','' @ u ''10'')"
      using that by (simp add: u_def)
    then show ?thesis
      using str_value_10 by (simp add: make_payload_def encode_ascii)
  qed
  have d: "\<exists>pl. make_payload (u ''deposit'') (PyInt 10) = Inr pl"
    by (rule p) (simp add: u_def)
  have w: "\<exists>pl. make_payload (u ''withdraw'') (PyInt 10) = Inr pl"
    by (rule p) (simp add: u_def)
  show ?thesis
    using d w
    by (auto simp: init_def balance_def deposit_def withdraw_def wrap_and_send_def
          make_batch_list_def make_header_def)
qed

subsection \<open>The constructor\<close>

lemma lstrip_split: "\<exists>l. s = l @ lstrip s \<and> list_all isspace l"
proof -
  have "s = takeWhile isspace s @ lstrip s"
    by (simp add: lstrip_def)
  moreover have "list_all isspace (takeWhile isspace s)"
    by (auto simp: list_all_iff dest: set_takeWhileD)
  ultimately show ?thesis by blast
qed

lemma rstrip_split: "\<exists>r. t = rstrip t @ r \<and> list_all isspace r"
proof -
  have "rstrip t @ rev (takeWhile isspace (rev t))
          = rev (takeWhile isspace (rev t) @ dropWhile isspace (rev t))"
    by (simp only: rstrip_def rev_append)
  also have "\<dots> = t"
    by (simp only: takeWhile_dropWhile_id rev_rev_ident)
  finally have "t = rstrip t @ rev (takeWhile isspace (rev t))"
    by simp
  moreover have "list_all isspace (rev (takeWhile isspace (rev t)))"
    by (auto simp: list_all_iff dest: set_takeWhileD)
  ultimately show ?thesis by blast
qed

lemma rstrip_last: "rstrip t \<noteq> [] \<Longrightarrow> \<not> isspace (last (rstrip t))"
  by (simp add: rstrip_def last_rev hd_dropWhile)

lemma lstrip_hd: "lstrip s \<noteq> [] \<Longrightarrow> \<not> isspace (hd (lstrip s))"
  by (simp add: lstrip_def hd_dropWhile)

lemma strip_hd: "strip s \<noteq> [] \<Longrightarrow> \<not> isspace (hd (strip s))"
proof -
  assume ne: "strip s \<noteq> []"
  obtain r where r: "lstrip s = rstrip (lstrip s) @ r"
    using rstrip_split [of "lstrip s"] by blast
  from ne have "hd (lstrip s) = hd (strip s)"
    using r by (metis hd_append2 strip_def)
  moreover from ne r have "lstrip s \<noteq> []"
    by (metis append_is_Nil_conv strip_def)
  ultimately show ?thesis
    using lstrip_hd [of s] by simp
qed

lemma strip_spec:
  "\<exists>l r. s = l @ strip s @ r \<and> list_all isspace l \<and> list_all isspace r
      \<and> (strip s = [] \<or> (\<not> isspace (hd (strip s)) \<and> \<not> isspace (last (strip s))))"
proof -
  obtain l where l: "s = l @ lstrip s" "list_all isspace l"
    using lstrip_split [of s] by blast
  obtain r where r: "lstrip s = strip s @ r" "list_all isspace r"
    using rstrip_split [of "lstrip s"] by (auto simp: strip_def)
  have "s = l @ strip s @ r"
    using l(1) r(1) by simp
  moreover have "strip s = [] \<or> (\<not> isspace (hd (strip s)) \<and> \<not> isspace (last (strip s)))"
    using strip_hd [of s] rstrip_last [of "lstrip s"] by (auto simp: strip_def)
  ultimately show ?thesis
    using l(2) r(2) by blast
qed

text \<open>
  C9, amended.  With a key file, the constructor reads the file, removes the whitespace at
  both ends of its text (\<open>str.strip\<close>: leading as well as trailing) and hands the rest to
  \<open>Secp256k1PrivateKey.from_hex\<close>.  An \<open>OSError\<close> while reading becomes a
  \<open>SimpleWalletException\<close> with the path and the error's text; a \<open>ParseError\<close> of the key
  becomes a \<open>SimpleWalletException\<close> with the parser's text.
\<close>

theorem init_key_file:
  "(\<forall>msg. open_read path = Inl (OSError msg) \<longrightarrow>
       init lib open_read url (Some path) =
         Inl (SimpleWalletException (u ''Failed to read private key '' @ path @ u '': '' @ msg)))
   \<and> (\<forall>contents msg.
         open_read path = Inr contents \<and> from_hex lib (strip contents) = Inl (ParseError msg) \<longrightarrow>
         init lib open_read url (Some path) =
           Inl (SimpleWalletException (u ''Failed to load private key: '' @ msg)))
   \<and> (\<forall>contents key a.
         open_read path = Inr contents \<and> from_hex lib (strip contents) = Inr key
         \<and> make_address FAMILY_NAME (public_key_hex lib key) = Inr a \<longrightarrow>
         init lib open_read url (Some path) =
           Inr \<lparr>baseUrl = url, signer = Some key, publicKey = Some (public_key_hex lib key),
                address = Some a\<rparr>)
   \<and> (\<forall>contents. \<exists>l r.
         contents = l @ strip contents @ r \<and> list_all isspace l \<and> list_all isspace r
         \<and> (strip contents = []
            \<or> (\<not> isspace (hd (strip contents)) \<and> \<not> isspace (last (strip contents)))))"
  using strip_spec by (simp add: init_def as_OSError_def Let_def)

lemma demo_key_file:
  "strip (u '' 0000000000000000000000000000000000000000000000000000000000000001'' @ [10])
     = demo_key_hex"
  "rstrip (u '' 0000000000000000000000000000000000000000000000000000000000000001'' @ [10])
     = u '' 0000000000000000000000000000000000000000000000000000000000000001''"
  by (simp_all add: strip_def lstrip_def rstrip_def isspace_def demo_key_hex_def u_def)

lemma make_address_demo:
  "make_address FAMILY_NAME demo_public_key =
     Inr (take 6 (hash [115, 105, 109, 112, 108, 101, 119, 97, 108, 108, 101, 116])
          @ take 64 (hash (map of_nat demo_public_key)))"
proof -
  have "list_all (\<lambda>c. c < 128) demo_public_key"
    by (simp add: demo_public_key_def u_def)
  then have "encode demo_public_key = Inr (map of_nat demo_public_key)"
    by (rule encode_ascii)
  then show ?thesis
    by (simp add: make_address_def encode_FAMILY_NAME)
qed

theorem init_key_file_witness:
  "init demo_sdk (\<lambda>p. Inl (OSError (u ''[Errno 2] No such file or directory'')))
        (u ''localhost:8008'') (Some (u ''/keys/jack.priv'')) =
     Inl (SimpleWalletException
            (u ''Failed to read private key /keys/jack.priv: [Errno 2] No such file or directory''))
   \<and> init demo_sdk (\<lambda>p. Inr (u ''not-a-key'' @ [10]))
        (u ''localhost:8008'') (Some (u ''/keys/jack.priv'')) =
     Inl (SimpleWalletException
            (u ''Failed to load private key: Unable to parse hex private key''))
   \<and> init demo_sdk
        (\<lambda>p. Inr (u '' 0000000000000000000000000000000000000000000000000000000000000001'' @ [10]))
        (u ''localhost:8008'') (Some (u ''/keys/jack.priv'')) =
     Inr \<lparr>baseUrl = u ''localhost:8008'', signer = Some demo_key,
          publicKey = Some demo_public_key,
          address = Some (take 6 (hash [115, 105, 109, 112, 108, 101, 119, 97, 108, 108, 101, 116])
                          @ take 64 (hash (map of_nat demo_public_key)))\<rparr>"
proof -
  have s: "strip (u ''not-a-key'' @ [10]) = u ''not-a-key''"
    by (simp add: strip_def lstrip_def rstrip_def isspace_def u_def)
  have p: "from_hex demo_sdk (u ''not-a-key'') = Inl (ParseError (u ''Unable to parse hex private key''))"
    by (simp add: demo_sdk_def demo_key_hex_def u_def)
  have k: "from_hex demo_sdk demo_key_hex = Inr demo_key"
    by (simp add: demo_sdk_def)
  have pk: "public_key_hex demo_sdk demo_key = demo_public_key"
    by (simp add: demo_sdk_def)
  have m1: "u ''Failed to read private key '' @ u ''/keys/jack.priv'' @ u '': ''
              @ u ''[Errno 2] No such file or directory''
            = u ''Failed to read private key /keys/jack.priv: [Errno 2] No such file or directory''"
    by (simp add: u_def)
  have m2: "u ''Failed to load private key: '' @ u ''Unable to parse hex private key''
            = u ''Failed to load private key: Unable to parse hex private key''"
    by (simp add: u_def)
  show ?thesis
    using init_key_file [of "\<lambda>p. Inl (OSError (u ''[Errno 2] No such file or directory''))"
          "u ''/keys/jack.priv''" demo_sdk "u ''localhost:8008''"]
      init_key_file [of "\<lambda>p. Inr (u ''not-a-key'' @ [10])"
          "u ''/keys/jack.priv''" demo_sdk "u ''localhost:8008''"]
      init_key_file [of "\<lambda>p. Inr (u '' 0000000000000000000000000000000000000000000000000000000000000001'' @ [10])"
          "u ''/keys/jack.priv''" demo_sdk "u ''localhost:8008''"]
      s p k pk demo_key_file(1) make_address_demo m1 m2
    by simp
qed

text \<open>
  A key file whose text starts with a space: trimmed of its trailing whitespace alone the
  text is no key, and the constructor accepts it.
\<close>

theorem leading_whitespace_is_trimmed:
  "rstrip (u '' 0000000000000000000000000000000000000000000000000000000000000001'' @ [10])
     = u '' 0000000000000000000000000000000000000000000000000000000000000001''
   \<and> from_hex demo_sdk
       (rstrip (u '' 0000000000000000000000000000000000000000000000000000000000000001'' @ [10]))
     = Inl (ParseError (u ''Unable to parse hex private key''))
   \<and> map_sum id signer
       (init demo_sdk
          (\<lambda>p. Inr (u '' 0000000000000000000000000000000000000000000000000000000000000001'' @ [10]))
          (u ''localhost:8008'') (Some (u ''/keys/jack.priv'')))
     = Inr (Some demo_key)"
proof -
  have ne: "u '' 0000000000000000000000000000000000000000000000000000000000000001'' \<noteq> demo_key_hex"
    by (simp add: demo_key_hex_def u_def)
  have k: "from_hex demo_sdk demo_key_hex = Inr demo_key"
    by (simp add: demo_sdk_def)
  have pk: "public_key_hex demo_sdk demo_key = demo_public_key"
    by (simp add: demo_sdk_def)
  have "from_hex demo_sdk (u '' 0000000000000000000000000000000000000000000000000000000000000001'')
          = Inl (ParseError (u ''Unable to parse hex private key''))"
    using ne by (simp add: demo_sdk_def)
  then show ?thesis
    by (simp add: demo_key_file init_def k pk make_address_demo)
qed

end
